theory Spec2Isabelle
  imports Main "HOL-Library.Word"
begin

section \<open>Values, errors and responses\<close>

text \<open>
  The controllers of \<^verbatim>\<open>User.PassAuth.controller.js\<close> read fields of a parsed JSON body and
  pass them on without looking inside, apart from testing truthiness and membership in
  \<^verbatim>\<open>allowedRoles\<close>. A field that is absent reads as \<^verbatim>\<open>undefined\<close>.
\<close>

datatype json =
    JUndefined
  | JNull
  | JBool bool
  | JNum int
  | JStr string
  | JArr "json list"
  | JObj "(string \<times> json) list"

text \<open>JavaScript truthiness, as used by \<^verbatim>\<open>!x\<close>, \<^verbatim>\<open>x || y\<close> and \<^verbatim>\<open>if (x)\<close>.\<close>

fun truthy :: "json \<Rightarrow> bool" where
  "truthy JUndefined = False"
| "truthy JNull = False"
| "truthy (JBool b) = b"
| "truthy (JNum n) = (n \<noteq> 0)"
| "truthy (JStr s) = (s \<noteq> [])"
| "truthy (JArr xs) = True"
| "truthy (JObj kvs) = True"

text \<open>\<^verbatim>\<open>a || b\<close>\<close>

definition js_or :: "json \<Rightarrow> json \<Rightarrow> json" where
  "js_or a b = (if truthy a then a else b)"

text \<open>Property access \<^verbatim>\<open>obj.key\<close> on a parsed object: \<^verbatim>\<open>undefined\<close> when the key is absent.\<close>

definition field :: "(string \<times> json) list \<Rightarrow> string \<Rightarrow> json" where
  "field obj k = (case map_of obj k of None \<Rightarrow> JUndefined | Some v \<Rightarrow> v)"

text \<open>
  \<^verbatim>\<open>new ApiError(status, message)\<close> is thrown by the controllers and reaches the caller as
  an error outcome with that status; any other error object (raised by the authentication
  strategy or by \<^verbatim>\<open>req.login\<close>) is passed on as it is.
\<close>

datatype error = ApiError nat json | OtherError string

text \<open>\<^verbatim>\<open>new ApiResponse(statusCode, data, message)\<close>\<close>

record api_response =
  statusCode :: nat
  data :: json
  message :: json

definition ApiResponse :: "nat \<Rightarrow> json \<Rightarrow> json \<Rightarrow> api_response" where
  "ApiResponse c d m = \<lparr>statusCode = c, data = d, message = m\<rparr>"

text \<open>The cookie options the controllers write; an option that is not written is unset.\<close>

record cookie_options =
  httpOnly :: bool
  secure :: bool
  sameSite :: "string option"

record cookie =
  cookie_name :: string
  cookie_value :: nat
  cookie_opts :: cookie_options

text \<open>
  What \<^verbatim>\<open>res.status(..).cookie(..).clearCookie(..).json(..)\<close> has produced when the handler
  returns.
\<close>

record response =
  status :: nat
  cookies :: "cookie list"
  cleared :: "(string \<times> cookie_options) list"
  body :: api_response

type_synonym 'w outcome = "(error + response) \<times> 'w"

section \<open>The user model and the credential store\<close>

text \<open>
  Modelled from the spec: the \<^verbatim>\<open>User\<close> model of \<^verbatim>\<open>db/server.db.js\<close> is not among the
  sources. A user row has an identifier, email, password (stored hashed), role, phone
  number, and the nullable pair reset token and token expiration. Time stamps are
  milliseconds since the epoch.
\<close>

record user =
  userid :: nat
  email :: json
  password :: json
  role :: json
  phoneNumber :: json
  resetToken :: "string option"
  tokenExpiration :: "int option"

text \<open>The attributes of a row as they are serialised into a response body.\<close>

definition user_attributes :: "user \<Rightarrow> (string \<times> json) list" where
  "user_attributes u =
     [(''userid'', JNum (int (userid u))),
      (''email'', email u),
      (''password'', password u),
      (''role'', role u),
      (''phoneNumber'', phoneNumber u),
      (''resetToken'', (case resetToken u of None \<Rightarrow> JNull | Some t \<Rightarrow> JStr t)),
      (''tokenExpiration'', (case tokenExpiration u of None \<Rightarrow> JNull | Some t \<Rightarrow> JNum t))]"

text \<open>\<^verbatim>\<open>attributes: { exclude: [...] }\<close> drops the named attributes from the row read.\<close>

definition exclude_attributes :: "string list \<Rightarrow> user \<Rightarrow> (string \<times> json) list" where
  "exclude_attributes ex u = filter (\<lambda>(k, v). k \<notin> set ex) (user_attributes u)"

text \<open>
  Modelled from the spec: the store is the list of rows; \<^verbatim>\<open>findOne\<close> returns the first row
  that satisfies the \<^verbatim>\<open>where\<close> clause, \<^verbatim>\<open>create\<close> appends a row under a fresh identifier
  with the password hashed and no reset token, and \<^verbatim>\<open>update\<close> on a row instance rewrites
  the row with that identifier. Rejections of the store itself (a lost connection) are
  outside the model.
\<close>

definition User_findOne :: "(user \<Rightarrow> bool) \<Rightarrow> user list \<Rightarrow> user option" where
  "User_findOne wh us = find wh us"

definition where_email :: "json \<Rightarrow> user \<Rightarrow> bool" where
  "where_email e u = (email u = e)"

text \<open>\<^verbatim>\<open>{ resetToken: token, tokenExpiration: { [Op.gt]: now } }\<close>\<close>

definition where_reset :: "string \<Rightarrow> int \<Rightarrow> user \<Rightarrow> bool" where
  "where_reset tok now u =
     (resetToken u = Some tok \<and>
      (case tokenExpiration u of None \<Rightarrow> False | Some t \<Rightarrow> t > now))"

definition fresh_userid :: "user list \<Rightarrow> nat" where
  "fresh_userid us = Suc (fold max (map userid us) 0)"

definition User_create ::
  "(json \<Rightarrow> json) \<Rightarrow> json \<Rightarrow> json \<Rightarrow> json \<Rightarrow> json \<Rightarrow> user list \<Rightarrow> user option \<times> user list" where
  "User_create hash e p r ph us =
     (let u = \<lparr>userid = fresh_userid us, email = e, password = hash p, role = r,
               phoneNumber = ph, resetToken = None, tokenExpiration = None\<rparr>
      in (Some u, us @ [u]))"

definition user_update :: "user \<Rightarrow> (user \<Rightarrow> user) \<Rightarrow> user list \<Rightarrow> user list" where
  "user_update u f us = map (\<lambda>x. if userid x = userid u then f x else x) us"

section \<open>Sessions, the world, and the collaborators\<close>

text \<open>
  The server-side session of the requesting client: the identifier bound by
  \<^verbatim>\<open>setSessionForUser\<close> and by \<^verbatim>\<open>req.session.userId = ...\<close>, and the user bound by
  \<^verbatim>\<open>req.login\<close>.
\<close>

record session =
  userId :: "nat option"
  loginUser :: "(string \<times> json) list option"

definition empty_session :: session where
  "empty_session = \<lparr>userId = None, loginUser = None\<rparr>"

text \<open>Every call the controllers make to a collaborator is recorded, in order.\<close>

datatype event =
    EvFindByEmail json
  | EvFindByResetToken string int
  | EvCreate json json json json
  | EvUpdate nat
  | EvAuthenticate json json
  | EvSetSession nat
  | EvReqLogin
  | EvSendResetEmail json string
  | EvSessionDestroy

definition is_store_call :: "event \<Rightarrow> bool" where
  "is_store_call ev =
     (case ev of EvFindByEmail _ \<Rightarrow> True | EvFindByResetToken _ _ \<Rightarrow> True
               | EvCreate _ _ _ _ \<Rightarrow> True | EvUpdate _ \<Rightarrow> True | _ \<Rightarrow> False)"

text \<open>
  The world a handler runs in: the store, the client's session (\<open>None\<close> when there is
  none, or after it was destroyed), and the calls made so far.
\<close>

record world =
  users :: "user list"
  client_session :: "session option"
  trace :: "event list"

definition log :: "event \<Rightarrow> world \<Rightarrow> world" where
  "log ev w = w\<lparr>trace := trace w @ [ev]\<rparr>"

text \<open>\<^verbatim>\<open>req.session\<close>: the session middleware hands every request a session object.\<close>

definition req_session :: "world \<Rightarrow> session" where
  "req_session w = (case client_session w of None \<Rightarrow> empty_session | Some s \<Rightarrow> s)"

text \<open>
  Modelled from the spec: \<^verbatim>\<open>setSessionForUser\<close> of \<^verbatim>\<open>Session.midleware.js\<close> is not among the
  sources; it binds the user identifier into the request's session.
\<close>

definition setSessionForUser :: "nat \<Rightarrow> world \<Rightarrow> world" where
  "setSessionForUser uid w =
     log (EvSetSession uid) (w\<lparr>client_session := Some ((req_session w)\<lparr>userId := Some uid\<rparr>)\<rparr>)"

text \<open>The outcome the authentication strategy hands to the callback \<^verbatim>\<open>(err, user, info)\<close>.\<close>

datatype auth_result = AuthErr error | AuthFail json | AuthOk user

text \<open>
  The collaborators whose code is not among the sources are parameters: the validators of
  \<^verbatim>\<open>utils/validation.js\<close> (pure and deterministic), the password hashing of the model, and
  the local strategy behind \<^verbatim>\<open>passport.authenticate\<close>, which sees the store and the
  submitted credentials.
\<close>

record env =
  validateRequiredFields :: "(string \<times> json) list \<Rightarrow> json"
  validateEmail :: "json \<Rightarrow> bool"
  validatePassword :: "json \<Rightarrow> bool"
  validatePhoneNumber :: "json \<Rightarrow> bool"
  hashPassword :: "json \<Rightarrow> json"
  authenticate :: "user list \<Rightarrow> json \<Rightarrow> json \<Rightarrow> auth_result"

text \<open>
  The parts of the request the controllers read: the parsed body, the \<^verbatim>\<open>:token\<close> route
  parameter, \<^verbatim>\<open>req.protocol\<close> and \<^verbatim>\<open>req.get('host')\<close>.
\<close>

record request =
  req_body :: "(string \<times> json) list"
  req_token :: string
  req_protocol :: string
  req_host :: string

section \<open>The controllers\<close>

definition allowedRoles :: "json list" where
  "allowedRoles = [JStr ''admin'', JStr ''user'']"

definition password_rule_message :: string where
  "password_rule_message =
     ''Password must be at least 6 characters long, include uppercase and lowercase letters, a number, and a special character.''"

text \<open>
  \<^verbatim>\<open>for (const { isValid, error } of validationChecks) if (!isValid) throw error\<close>: the first
  check that is not valid decides what is thrown.
\<close>

fun first_invalid :: "(bool \<times> 'e) list \<Rightarrow> 'e option" where
  "first_invalid [] = None"
| "first_invalid ((isValid, err) # cs) = (if \<not> isValid then Some err else first_invalid cs)"

definition register_checks :: "env \<Rightarrow> request \<Rightarrow> (bool \<times> error) list" where
  "register_checks E req =
     (let email = field (req_body req) ''email'';
          password = field (req_body req) ''password'';
          phoneNumber = field (req_body req) ''phoneNumber'';
          requiredFieldErrors = validateRequiredFields E
            [(''email'', email), (''password'', password), (''phoneNumber'', phoneNumber)]
      in [(\<not> truthy requiredFieldErrors, ApiError 400 requiredFieldErrors),
          (validateEmail E email, ApiError 400 (JStr ''Invalid email format.'')),
          (validatePassword E password, ApiError 400 (JStr password_rule_message)),
          (validatePhoneNumber E phoneNumber,
             ApiError 400 (JStr ''Phone number must be in the format +91 followed by 10 digits.''))])"

definition PassportRegister :: "env \<Rightarrow> request \<Rightarrow> world \<Rightarrow> world outcome" where
  "PassportRegister E req w =
     (let email = field (req_body req) ''email'';
          password = field (req_body req) ''password'';
          role = field (req_body req) ''role'';
          phoneNumber = field (req_body req) ''phoneNumber''
      in case first_invalid (register_checks E req) of
           Some err \<Rightarrow> (Inl err, w)
         | None \<Rightarrow>
            (let w1 = log (EvFindByEmail email) w in
             case User_findOne (where_email email) (users w1) of
               Some existingUser \<Rightarrow> (Inl (ApiError 409 (JStr ''User already exists.'')), w1)
             | None \<Rightarrow>
                (let userRole = (if role \<in> set allowedRoles then role else JStr ''user'');
                     (created, us) = User_create (hashPassword E) email password userRole phoneNumber (users w1);
                     w2 = log (EvCreate email password userRole phoneNumber) (w1\<lparr>users := us\<rparr>)
                 in case created of
                      None \<Rightarrow> (Inl (ApiError 500 (JStr ''Error while creating user.'')), w2)
                    | Some user \<Rightarrow>
                       (let w3 = setSessionForUser (userid user) w2;
                            w4 = log (EvFindByEmail email) w3;
                            createdUser =
                              (case User_findOne (where_email email) (users w4) of
                                 None \<Rightarrow> JNull
                               | Some u \<Rightarrow> JObj (exclude_attributes [''password''] u))
                        in (Inr \<lparr>status = 201, cookies = [], cleared = [],
                                 body = ApiResponse 201 createdUser (JStr ''User registered successfully.'')\<rparr>,
                            w4)))))"

definition login_checks :: "env \<Rightarrow> request \<Rightarrow> (bool \<times> error) list" where
  "login_checks E req =
     (let email = field (req_body req) ''email'';
          password = field (req_body req) ''password'';
          requiredFieldErrors = validateRequiredFields E
            [(''email'', email), (''password'', password)]
      in [(\<not> truthy requiredFieldErrors,
             ApiError 400 (js_or requiredFieldErrors (JStr ''Email and password are required.''))),
          (validateEmail E email, ApiError 400 (JStr ''Invalid email format.'')),
          (validatePassword E password, ApiError 400 (JStr password_rule_message))])"

text \<open>
  \<open>loginErr\<close> is the error \<^verbatim>\<open>req.login\<close> hands to its callback, if any. The callback of
  \<^verbatim>\<open>passport.authenticate\<close> tests \<^verbatim>\<open>err\<close> first, then \<^verbatim>\<open>!user\<close>.
\<close>

definition PassportLogIn :: "env \<Rightarrow> request \<Rightarrow> error option \<Rightarrow> world \<Rightarrow> world outcome" where
  "PassportLogIn E req loginErr w =
     (let email = field (req_body req) ''email'';
          password = field (req_body req) ''password''
      in case first_invalid (login_checks E req) of
           Some err \<Rightarrow> (Inl err, w)
         | None \<Rightarrow>
            (let w1 = log (EvAuthenticate email password) w in
             case authenticate E (users w1) email password of
               AuthErr err \<Rightarrow> (Inl err, w1)
             | AuthFail info \<Rightarrow>
                 (Inr \<lparr>status = 401, cookies = [], cleared = [],
                       body = ApiResponse 401 (JObj []) (js_or info (JStr ''Invalid login credentials.''))\<rparr>,
                  w1)
             | AuthOk user \<Rightarrow>
                (let w2 = setSessionForUser (userid user) w1;
                     w3 = log (EvFindByEmail (user.email user)) w2
                 in case User_findOne (where_email (user.email user)) (users w3) of
                      None \<Rightarrow> (Inl (ApiError 404 (JStr ''User not found.'')), w3)
                    | Some su \<Rightarrow>
                       (let sanitizedUser = exclude_attributes [''password''] su;
                            w4 = log EvReqLogin w3
                        in case loginErr of
                             Some e \<Rightarrow> (Inl e, w4)
                           | None \<Rightarrow>
                              (let w5 = w4\<lparr>client_session :=
                                             Some ((req_session w4)\<lparr>loginUser := Some sanitizedUser\<rparr>)\<rparr>;
                                   options = \<lparr>httpOnly = True, secure = False, sameSite = Some ''strict''\<rparr>;
                                   w6 = w5\<lparr>client_session :=
                                             Some ((req_session w5)\<lparr>userId := Some (userid user)\<rparr>)\<rparr>
                               in (Inr \<lparr>status = 200,
                                        cookies = [\<lparr>cookie_name = ''session_cookie'',
                                                    cookie_value = userid user,
                                                    cookie_opts = options\<rparr>],
                                        cleared = [],
                                        body = ApiResponse 200 (JObj [(''user'', JObj sanitizedUser)])
                                                 (JStr ''Login successful'')\<rparr>,
                                   w6))))))"

text \<open>\<open>destroyErr\<close> is the error \<^verbatim>\<open>req.session.destroy\<close> hands to its callback, if any.\<close>

definition PassportLogOut :: "error option \<Rightarrow> world \<Rightarrow> world outcome" where
  "PassportLogOut destroyErr w =
     (let w1 = log EvSessionDestroy w in
      case destroyErr of
        Some err \<Rightarrow>
          (Inr \<lparr>status = 500, cookies = [], cleared = [],
                body = ApiResponse 500 (JObj []) (JStr ''Failed to log out'')\<rparr>, w1)
      | None \<Rightarrow>
          (let options = \<lparr>httpOnly = True, secure = True, sameSite = None\<rparr>
           in (Inr \<lparr>status = 200, cookies = [], cleared = [(''connect.sid'', options)],
                    body = ApiResponse 200 (JObj []) (JStr ''User logged out successfully'')\<rparr>,
               w1\<lparr>client_session := None\<rparr>)))"

text \<open>
  \<^verbatim>\<open>crypto.randomBytes(n)\<close> reads \<open>n\<close> bytes from the system's entropy source, here the
  stream \<open>entropy\<close>; \<^verbatim>\<open>.toString("hex")\<close> writes each byte as two lower-case hex digits.
\<close>

definition randomBytes :: "(nat \<Rightarrow> 8 word) \<Rightarrow> nat \<Rightarrow> 8 word list" where
  "randomBytes entropy n = map entropy [0..<n]"

definition hex_digit :: "nat \<Rightarrow> char" where
  "hex_digit d = ''0123456789abcdef'' ! d"

definition byte_hex :: "8 word \<Rightarrow> string" where
  "byte_hex b = [hex_digit (unat b div 16), hex_digit (unat b mod 16)]"

definition toString_hex :: "8 word list \<Rightarrow> string" where
  "toString_hex bs = concat (map byte_hex bs)"

definition ForgotPassword ::
  "env \<Rightarrow> request \<Rightarrow> (nat \<Rightarrow> 8 word) \<Rightarrow> int \<Rightarrow> world \<Rightarrow> world outcome" where
  "ForgotPassword E req entropy now w =
     (let email = field (req_body req) ''email'' in
      if \<not> validateEmail E email then (Inl (ApiError 400 (JStr ''Invalid email format.'')), w)
      else
        (let w1 = log (EvFindByEmail email) w in
         case User_findOne (where_email email) (users w1) of
           None \<Rightarrow> (Inl (ApiError 404 (JStr ''User with this email does not exist.'')), w1)
         | Some user \<Rightarrow>
            (let resetToken' = toString_hex (randomBytes entropy 3);
                 tokenExpiration' = now + 3600000;
                 w2 = log (EvUpdate (userid user))
                        (w1\<lparr>users := user_update user
                             (\<lambda>x. x\<lparr>resetToken := Some resetToken',
                                     tokenExpiration := Some tokenExpiration'\<rparr>) (users w1)\<rparr>);
                 resetUrl = req_protocol req @ ''://'' @ req_host req @ ''/verifyEmail/'' @ resetToken';
                 w3 = log (EvSendResetEmail email resetUrl) w2
             in (Inr \<lparr>status = 200, cookies = [], cleared = [],
                      body = ApiResponse 200 (JObj []) (JStr ''Password reset email sent successfully.'')\<rparr>,
                 w3))))"

definition ResetPassword :: "env \<Rightarrow> request \<Rightarrow> int \<Rightarrow> world \<Rightarrow> world outcome" where
  "ResetPassword E req now w =
     (let newPassword = field (req_body req) ''newPassword'';
          token = req_token req
      in if \<not> validatePassword E newPassword
         then (Inl (ApiError 400 (JStr password_rule_message)), w)
         else
          (let w1 = log (EvFindByResetToken token now) w in
           case User_findOne (where_reset token now) (users w1) of
             None \<Rightarrow> (Inl (ApiError 400 (JStr ''Invalid or expired reset token.'')), w1)
           | Some user \<Rightarrow>
              (let w2 = log (EvUpdate (userid user))
                          (w1\<lparr>users := user_update user
                               (\<lambda>x. x\<lparr>password := hashPassword E newPassword,
                                       resetToken := None,
                                       tokenExpiration := None\<rparr>) (users w1)\<rparr>)
               in (Inr \<lparr>status = 200, cookies = [], cleared = [],
                        body = ApiResponse 200 (JObj []) (JStr ''Password reset successfully'')\<rparr>,
                   w2))))"

section \<open>The collaborators as the specification describes them\<close>

text \<open>
  Modelled from the spec: \<^verbatim>\<open>utils/validation.js\<close> is not among the sources. The
  required-fields check fails when any field of the set it is given is absent or empty.
\<close>

definition absent_or_empty :: "json \<Rightarrow> bool" where
  "absent_or_empty v = (v = JUndefined \<or> v = JNull \<or> v = JStr [])"

definition spec_validateRequiredFields :: "(string \<times> json) list \<Rightarrow> json" where
  "spec_validateRequiredFields flds =
     (case filter (\<lambda>(k, v). absent_or_empty v) flds of
        [] \<Rightarrow> JNull
      | (k, v) # _ \<Rightarrow> JStr (k @ '' is required.''))"

text \<open>
  What the controllers need of the required-fields check: it reports an error (a truthy
  value) whenever one of the fields it is given is absent or empty.
\<close>

definition reports_missing :: "env \<Rightarrow> bool" where
  "reports_missing E =
     (\<forall>flds. (\<exists>kv \<in> set flds. absent_or_empty (snd kv)) \<longrightarrow>
         truthy (validateRequiredFields E flds))"

text \<open>
  Modelled from the spec: the password check passes only when the length is at least 6
  and there is at least one uppercase letter, one lowercase letter, one digit and one
  special character; a special character is taken to be any character that is neither a
  letter nor a digit.
\<close>

definition is_upper :: "char \<Rightarrow> bool" where
  "is_upper c = (c \<in> set ''ABCDEFGHIJKLMNOPQRSTUVWXYZ'')"

definition is_lower :: "char \<Rightarrow> bool" where
  "is_lower c = (c \<in> set ''abcdefghijklmnopqrstuvwxyz'')"

definition is_digit :: "char \<Rightarrow> bool" where
  "is_digit c = (c \<in> set ''0123456789'')"

definition is_special :: "char \<Rightarrow> bool" where
  "is_special c = (\<not> is_upper c \<and> \<not> is_lower c \<and> \<not> is_digit c)"

fun strong_password :: "json \<Rightarrow> bool" where
  "strong_password (JStr s) =
     (6 \<le> length s \<and> list_ex is_upper s \<and> list_ex is_lower s \<and> list_ex is_digit s \<and>
      list_ex is_special s)"
| "strong_password _ = False"

text \<open>
  What the login controller needs of the password check: whatever it accepts satisfies
  the strength rule.
\<close>

definition enforces_strength :: "env \<Rightarrow> bool" where
  "enforces_strength E = (\<forall>p. validatePassword E p \<longrightarrow> strong_password p)"

text \<open>
  Modelled from the spec: the email check passes a string of the shape
  \<^verbatim>\<open>local@domain.tld\<close>; the phone check passes \<^verbatim>\<open>+91\<close> followed by exactly 10 digits.
\<close>

fun spec_validateEmail :: "json \<Rightarrow> bool" where
  "spec_validateEmail (JStr s) =
     (let local = takeWhile (\<lambda>c. c \<noteq> CHR ''@'') s;
          dom = drop (Suc (length local)) s;
          host = takeWhile (\<lambda>c. c \<noteq> CHR ''.'') dom;
          tld = drop (Suc (length host)) dom
      in local \<noteq> [] \<and> host \<noteq> [] \<and> tld \<noteq> [] \<and> CHR ''@'' \<notin> set dom \<and> CHR '' '' \<notin> set s)"
| "spec_validateEmail _ = False"

fun spec_validatePhoneNumber :: "json \<Rightarrow> bool" where
  "spec_validatePhoneNumber (JStr s) =
     (take 3 s = ''+91'' \<and> length s = 13 \<and> list_all is_digit (drop 3 s))"
| "spec_validatePhoneNumber _ = False"

text \<open>
  Modelled from the spec: the local strategy of \<^verbatim>\<open>db/passport.js\<close> is not among the sources.
  Verification looks the email up, compares the hash of the submitted password with the
  stored one, and answers with the user or with \<^verbatim>\<open>{Invalid, reason}\<close>. The reason is
  caller-safe: it is the same whether the email or the password was wrong.
\<close>

definition verify ::
  "(json \<Rightarrow> json) \<Rightarrow> json \<Rightarrow> user list \<Rightarrow> json \<Rightarrow> json \<Rightarrow> auth_result" where
  "verify hash reason us e p =
     (case find (where_email e) us of
        None \<Rightarrow> AuthFail reason
      | Some u \<Rightarrow> if password u = hash p then AuthOk u else AuthFail reason)"

text \<open>The hash is opaque to the controllers; this one only marks its argument.\<close>

definition marked_hash :: "json \<Rightarrow> json" where
  "marked_hash p = JArr [JStr ''hash'', p]"

definition spec_env :: env where
  "spec_env =
     \<lparr>validateRequiredFields = spec_validateRequiredFields,
      validateEmail = spec_validateEmail,
      validatePassword = strong_password,
      validatePhoneNumber = spec_validatePhoneNumber,
      hashPassword = marked_hash,
      authenticate = verify marked_hash JUndefined\<rparr>"

section \<open>Notions the statements use\<close>

text \<open>
  The row \<^verbatim>\<open>User.create({ email, password, role: userRole, phoneNumber })\<close> adds for a
  request, in a world.
\<close>

definition new_user :: "env \<Rightarrow> request \<Rightarrow> world \<Rightarrow> user" where
  "new_user E req w =
     \<lparr>userid = fresh_userid (users w),
      email = field (req_body req) ''email'',
      password = hashPassword E (field (req_body req) ''password''),
      role = (if field (req_body req) ''role'' \<in> set allowedRoles
              then field (req_body req) ''role'' else JStr ''user''),
      phoneNumber = field (req_body req) ''phoneNumber'',
      resetToken = None, tokenExpiration = None\<rparr>"

text \<open>
  The update \<^verbatim>\<open>{ password: newPassword, resetToken: null, tokenExpiration: null }\<close> of
  \<^verbatim>\<open>ResetPassword\<close>, and the rows that hold a given reset token.
\<close>

definition consume :: "env \<Rightarrow> json \<Rightarrow> user \<Rightarrow> user" where
  "consume E np x = x\<lparr>password := hashPassword E np, resetToken := None, tokenExpiration := None\<rparr>"

definition token_holders :: "string \<Rightarrow> user list \<Rightarrow> user list" where
  "token_holders tok us = filter (\<lambda>u. resetToken u = Some tok) us"


definition reset_email_sent :: response where
  "reset_email_sent =
     \<lparr>status = 200, cookies = [], cleared = [],
      body = ApiResponse 200 (JObj []) (JStr ''Password reset email sent successfully.'')\<rparr>"

definition password_reset :: response where
  "password_reset =
     \<lparr>status = 200, cookies = [], cleared = [],
      body = ApiResponse 200 (JObj []) (JStr ''Password reset successfully'')\<rparr>"

section \<open>Example requests and worlds\<close>

definition mk_request :: "(string \<times> json) list \<Rightarrow> request" where
  "mk_request b = \<lparr>req_body = b, req_token = [], req_protocol = ''https'', req_host = ''example.org''\<rparr>"

definition empty_world :: world where
  "empty_world = \<lparr>users = [], client_session = None, trace = []\<rparr>"

definition alice_body :: "(string \<times> json) list" where
  "alice_body =
     [(''email'', JStr ''a@b.com''), (''password'', JStr ''Abcd1!''),
      (''phoneNumber'', JStr ''+919876543210'')]"

definition alice :: user where
  "alice = \<lparr>userid = 1, email = JStr ''a@b.com'', password = marked_hash (JStr ''Abcd1!''),
            role = JStr ''user'', phoneNumber = JStr ''+919876543210'',
            resetToken = None, tokenExpiration = None\<rparr>"

definition bob :: user where
  "bob = \<lparr>userid = 2, email = JStr ''bob@b.com'', password = marked_hash (JStr ''Bobb2?''),
          role = JStr ''admin'', phoneNumber = JStr ''+919876500000'',
          resetToken = None, tokenExpiration = None\<rparr>"

definition world_of :: "user list \<Rightarrow> world" where
  "world_of us = \<lparr>users = us, client_session = None, trace = []\<rparr>"

definition carol :: user where
  "carol = \<lparr>userid = 3, email = JStr ''carol@b.com'', password = marked_hash (JStr ''secret''),
          role = JStr ''user'', phoneNumber = JStr ''+919876511111'',
          resetToken = None, tokenExpiration = None\<rparr>"

definition carol_body :: "(string \<times> json) list" where
  "carol_body = [(''email'', JStr ''carol@b.com''), (''password'', JStr ''secret'')]"

definition alice_row :: "(string \<times> json) list" where
  "alice_row =
     [(''userid'', JNum 1), (''email'', JStr ''a@b.com''), (''role'', JStr ''user''),
      (''phoneNumber'', JStr ''+919876543210''), (''resetToken'', JNull),
      (''tokenExpiration'', JNull)]"

definition alice_registered :: response where
  "alice_registered =
     \<lparr>status = 201, cookies = [], cleared = [],
      body = ApiResponse 201 (JObj alice_row) (JStr ''User registered successfully.'')\<rparr>"

definition alice_logged_in :: response where
  "alice_logged_in =
     \<lparr>status = 200,
      cookies = [\<lparr>cookie_name = ''session_cookie'', cookie_value = 1,
                  cookie_opts = \<lparr>httpOnly = True, secure = False, sameSite = Some ''strict''\<rparr>\<rparr>],
      cleared = [],
      body = ApiResponse 200 (JObj [(''user'', JObj alice_row)]) (JStr ''Login successful'')\<rparr>"

definition weak_body :: "(string \<times> json) list" where
  "weak_body =
     [(''email'', JStr ''a@b.com''), (''password'', JStr ''weak''),
      (''phoneNumber'', JStr ''+919876543210'')]"

definition root_body :: "(string \<times> json) list" where
  "root_body = alice_body @ [(''role'', JStr ''root'')]"


definition sample_entropy :: "nat \<Rightarrow> 8 word" where
  "sample_entropy i = [0x0a, 0xb1, 0xc2] ! i"

definition forgot_body :: "string \<Rightarrow> (string \<times> json) list" where
  "forgot_body e = [(''email'', JStr e)]"

definition reset_request :: "string \<Rightarrow> string \<Rightarrow> request" where
  "reset_request tok np =
     \<lparr>req_body = [(''newPassword'', JStr np)], req_token = tok,
      req_protocol = ''https'', req_host = ''example.org''\<rparr>"

text \<open>
  Worlds reached by forgot-password requests: one for alice, and one for alice and bob in
  which the random source delivers the same three bytes to both.
\<close>

definition one_pending :: world where
  "one_pending =
     snd (ForgotPassword spec_env (mk_request (forgot_body ''a@b.com'')) sample_entropy 0
            (world_of [alice, bob]))"

definition two_pending :: world where
  "two_pending =
     snd (ForgotPassword spec_env (mk_request (forgot_body ''bob@b.com'')) sample_entropy 0
       (snd (ForgotPassword spec_env (mk_request (forgot_body ''a@b.com'')) sample_entropy 0
          (world_of [alice, bob]))))"

section \<open>Validation comes first\<close>

lemma first_invalid_register_checks:
  "first_invalid (register_checks E req) =
     (let rfe = validateRequiredFields E
            [(''email'', field (req_body req) ''email''),
             (''password'', field (req_body req) ''password''),
             (''phoneNumber'', field (req_body req) ''phoneNumber'')]
      in if truthy rfe then Some (ApiError 400 rfe)
         else if \<not> validateEmail E (field (req_body req) ''email'')
           then Some (ApiError 400 (JStr ''Invalid email format.''))
         else if \<not> validatePassword E (field (req_body req) ''password'')
           then Some (ApiError 400 (JStr password_rule_message))
         else if \<not> validatePhoneNumber E (field (req_body req) ''phoneNumber'')
           then Some (ApiError 400 (JStr ''Phone number must be in the format +91 followed by 10 digits.''))
         else None)"
  by (simp add: register_checks_def Let_def)

lemma first_invalid_login_checks:
  "first_invalid (login_checks E req) =
     (let rfe = validateRequiredFields E
            [(''email'', field (req_body req) ''email''),
             (''password'', field (req_body req) ''password'')]
      in if truthy rfe then Some (ApiError 400 rfe)
         else if \<not> validateEmail E (field (req_body req) ''email'')
           then Some (ApiError 400 (JStr ''Invalid email format.''))
         else if \<not> validatePassword E (field (req_body req) ''password'')
           then Some (ApiError 400 (JStr password_rule_message))
         else None)"
  by (simp add: login_checks_def Let_def js_or_def)

lemma PassportRegister_invalid:
  "first_invalid (register_checks E req) = Some err \<Longrightarrow> PassportRegister E req w = (Inl err, w)"
  by (simp add: PassportRegister_def Let_def)

lemma PassportLogIn_invalid:
  "first_invalid (login_checks E req) = Some err \<Longrightarrow> PassportLogIn E req loginErr w = (Inl err, w)"
  by (simp add: PassportLogIn_def Let_def)

lemma spec_env_reports_missing: "reports_missing spec_env"
  unfolding reports_missing_def
proof (intro allI impI)
  fix flds :: "(string \<times> json) list"
  assume "\<exists>kv\<in>set flds. absent_or_empty (snd kv)"
  then have "filter (\<lambda>(k, v). absent_or_empty v) flds \<noteq> []"
    by (auto simp: filter_empty_conv)
  then show "truthy (validateRequiredFields spec_env flds)"
    by (auto simp: spec_env_def spec_validateRequiredFields_def split: list.splits)
qed

text \<open>
  C2. A registration input in which email, password or phoneNumber is absent or empty, or
  which fails the email, password or phone check, is answered with a 400 error; the world
  is returned as it was, so no call to the store was made and no record was created. The
  message is that of the first failing check in the order required fields, email,
  password, phone. The required-fields check is the one of the specification: it reports
  an error whenever a field it is given is absent or empty.
\<close>

theorem PassportRegister_rejects_invalid_input:
  fixes E :: env and req :: request and w :: world
  defines "em \<equiv> field (req_body req) ''email''"
    and "pw \<equiv> field (req_body req) ''password''"
    and "ph \<equiv> field (req_body req) ''phoneNumber''"
  defines "rfe \<equiv> validateRequiredFields E [(''email'', em), (''password'', pw), (''phoneNumber'', ph)]"
  assumes contract: "reports_missing E"
    and bad: "absent_or_empty em \<or> absent_or_empty pw \<or> absent_or_empty ph \<or>
              \<not> validateEmail E em \<or> \<not> validatePassword E pw \<or> \<not> validatePhoneNumber E ph"
  shows "PassportRegister E req w =
           (Inl (ApiError 400
              (if truthy rfe then rfe
               else if \<not> validateEmail E em then JStr ''Invalid email format.''
               else if \<not> validatePassword E pw then JStr password_rule_message
               else JStr ''Phone number must be in the format +91 followed by 10 digits.'')), w)
         \<and> ((absent_or_empty em \<or> absent_or_empty pw \<or> absent_or_empty ph) \<longrightarrow> truthy rfe)
         \<and> filter is_store_call (trace (snd (PassportRegister E req w))) = filter is_store_call (trace w)
         \<and> users (snd (PassportRegister E req w)) = users w"
proof -
  have miss: "truthy rfe" if "absent_or_empty em \<or> absent_or_empty pw \<or> absent_or_empty ph"
    using contract that unfolding reports_missing_def rfe_def
    by (metis list.set_intros(1,2) snd_conv)
  let ?msg = "if truthy rfe then rfe
               else if \<not> validateEmail E em then JStr ''Invalid email format.''
               else if \<not> validatePassword E pw then JStr password_rule_message
               else JStr ''Phone number must be in the format +91 followed by 10 digits.''"
  have "first_invalid (register_checks E req) = Some (ApiError 400 ?msg)"
    using bad miss by (auto simp: first_invalid_register_checks Let_def rfe_def em_def pw_def ph_def)
  then have "PassportRegister E req w = (Inl (ApiError 400 ?msg), w)"
    by (rule PassportRegister_invalid)
  with miss show ?thesis by simp
qed

text \<open>The theorem at a registration whose password is empty.\<close>

theorem PassportRegister_rejects_invalid_input_witness:
  "reports_missing spec_env
   \<and> absent_or_empty (field (req_body (mk_request [(''email'', JStr ''a@b.com''), (''password'', JStr [])])) ''password'')
   \<and> PassportRegister spec_env (mk_request [(''email'', JStr ''a@b.com''), (''password'', JStr [])]) empty_world
       = (Inl (ApiError 400 (JStr ''password is required.'')), empty_world)"
  using PassportRegister_rejects_invalid_input [OF spec_env_reports_missing,
      of "mk_request [(''email'', JStr ''a@b.com''), (''password'', JStr [])]" empty_world]
    spec_env_reports_missing
  by (simp add: mk_request_def field_def absent_or_empty_def spec_env_def
      spec_validateRequiredFields_def)

text \<open>
  C10. The login controller runs the password check on the submitted password before it
  calls the authentication strategy. When that check enforces the strength rule (length
  at least 6, an uppercase letter, a lowercase letter, a digit, a special character), a
  login whose password fails the rule is answered with a 400 error and the world is
  returned as it was: the strategy is never called, whatever it would have answered, so a
  user whose password does not satisfy the rule cannot log in with it.
\<close>

theorem PassportLogIn_checks_strength_first:
  fixes E :: env and req :: request and w :: world
  defines "em \<equiv> field (req_body req) ''email''"
    and "pw \<equiv> field (req_body req) ''password''"
  defines "rfe \<equiv> validateRequiredFields E [(''email'', em), (''password'', pw)]"
  assumes rule: "enforces_strength E"
    and weak: "\<not> strong_password pw"
  shows "PassportLogIn E req loginErr w =
           (Inl (ApiError 400
              (if truthy rfe then rfe
               else if \<not> validateEmail E em then JStr ''Invalid email format.''
               else JStr password_rule_message)), w)
         \<and> trace (snd (PassportLogIn E req loginErr w)) = trace w"
proof -
  have "\<not> validatePassword E pw"
    using rule weak by (auto simp: enforces_strength_def)
  then have "first_invalid (login_checks E req) = Some (ApiError 400
              (if truthy rfe then rfe
               else if \<not> validateEmail E em then JStr ''Invalid email format.''
               else JStr password_rule_message))"
    by (simp add: first_invalid_login_checks Let_def rfe_def em_def pw_def)
  then show ?thesis
    by (simp add: PassportLogIn_invalid)
qed

lemmas eval_defs =
  PassportRegister_def PassportLogIn_def register_checks_def login_checks_def Let_def
  User_findOne_def User_create_def user_update_def fresh_userid_def log_def
  setSessionForUser_def req_session_def empty_session_def
  spec_env_def verify_def marked_hash_def where_email_def where_reset_def
  spec_validateRequiredFields_def absent_or_empty_def
  is_upper_def is_lower_def is_digit_def is_special_def
  mk_request_def empty_world_def world_of_def alice_body_def alice_def
  field_def allowedRoles_def js_or_def ApiResponse_def exclude_attributes_def user_attributes_def

lemma alice_valid: "first_invalid (register_checks spec_env (mk_request alice_body)) = None"
  by (simp add: eval_defs)

lemma alice_login_valid: "first_invalid (login_checks spec_env (mk_request alice_body)) = None"
  by (simp add: eval_defs)

lemma enforces_strength_spec_env: "enforces_strength spec_env"
  by (simp add: enforces_strength_def spec_env_def)

text \<open>
  The theorem at a user whose password is \<^verbatim>\<open>secret\<close>: the strategy would accept the
  credentials, and the login is refused before it is asked.
\<close>

theorem PassportLogIn_checks_strength_first_witness:
  "enforces_strength spec_env
   \<and> \<not> strong_password (field (req_body (mk_request carol_body)) ''password'')
   \<and> authenticate spec_env [carol] (JStr ''carol@b.com'') (JStr ''secret'') = AuthOk carol
   \<and> PassportLogIn spec_env (mk_request carol_body) None (world_of [carol])
       = (Inl (ApiError 400 (JStr password_rule_message)), world_of [carol])"
  using PassportLogIn_checks_strength_first [OF enforces_strength_spec_env,
      of "mk_request carol_body" None "world_of [carol]"]
    enforces_strength_spec_env
  by (simp add: eval_defs carol_def carol_body_def)

section \<open>Logout\<close>

text \<open>
  C9. Logout answers 500 when destroying the session reports an error; otherwise it
  clears the session cookie \<^verbatim>\<open>connect.sid\<close> with httpOnly and secure set and answers 200,
  in every world, whether or not the client had a session.
\<close>

theorem PassportLogOut_outcome:
  "fst (PassportLogOut (Some err) w) =
      Inr \<lparr>status = 500, cookies = [], cleared = [],
           body = ApiResponse 500 (JObj []) (JStr ''Failed to log out'')\<rparr>
   \<and> fst (PassportLogOut None w) =
      Inr \<lparr>status = 200, cookies = [],
           cleared = [(''connect.sid'', \<lparr>httpOnly = True, secure = True, sameSite = None\<rparr>)],
           body = ApiResponse 200 (JObj []) (JStr ''User logged out successfully'')\<rparr>
   \<and> client_session (snd (PassportLogOut None w)) = None"
  by (simp add: PassportLogOut_def Let_def)

section \<open>Registration\<close>

lemma find_append_new:
  "find P us = None \<Longrightarrow> P u \<Longrightarrow> find P (us @ [u]) = Some u"
  by (induction us) (auto split: if_splits)

lemma exclude_password_row:
  "exclude_attributes [''password''] u =
     [(''userid'', JNum (int (userid u))),
      (''email'', email u),
      (''role'', role u),
      (''phoneNumber'', phoneNumber u),
      (''resetToken'', (case resetToken u of None \<Rightarrow> JNull | Some t \<Rightarrow> JStr t)),
      (''tokenExpiration'', (case tokenExpiration u of None \<Rightarrow> JNull | Some t \<Rightarrow> JNum t))]"
  by (simp add: exclude_attributes_def user_attributes_def)

lemma PassportRegister_conflict:
  assumes "first_invalid (register_checks E req) = None"
    and "find (where_email (field (req_body req) ''email'')) (users w) = Some x"
  shows "PassportRegister E req w =
           (Inl (ApiError 409 (JStr ''User already exists.'')),
            log (EvFindByEmail (field (req_body req) ''email'')) w)"
  using assms by (simp add: PassportRegister_def Let_def User_findOne_def log_def)

lemma PassportRegister_success:
  assumes "first_invalid (register_checks E req) = None"
    and "find (where_email (field (req_body req) ''email'')) (users w) = None"
  shows "fst (PassportRegister E req w) =
           Inr \<lparr>status = 201, cookies = [], cleared = [],
                body = ApiResponse 201 (JObj (exclude_attributes [''password''] (new_user E req w)))
                         (JStr ''User registered successfully.'')\<rparr>"
    and "users (snd (PassportRegister E req w)) = users w @ [new_user E req w]"
    and "client_session (snd (PassportRegister E req w)) =
           Some ((req_session w)\<lparr>userId := Some (fresh_userid (users w))\<rparr>)"
proof -
  let ?em = "field (req_body req) ''email''"
  have f: "find (where_email ?em) (users w @ [new_user E req w]) = Some (new_user E req w)"
    using assms(2) by (rule find_append_new) (simp add: where_email_def new_user_def)
  show "fst (PassportRegister E req w) =
           Inr \<lparr>status = 201, cookies = [], cleared = [],
                body = ApiResponse 201 (JObj (exclude_attributes [''password''] (new_user E req w)))
                         (JStr ''User registered successfully.'')\<rparr>"
    using assms f
    by (simp add: PassportRegister_def Let_def User_findOne_def log_def User_create_def
        setSessionForUser_def new_user_def)
  show "users (snd (PassportRegister E req w)) = users w @ [new_user E req w]"
    using assms f
    by (simp add: PassportRegister_def Let_def User_findOne_def log_def User_create_def
        setSessionForUser_def new_user_def)
  show "client_session (snd (PassportRegister E req w)) =
           Some ((req_session w)\<lparr>userId := Some (fresh_userid (users w))\<rparr>)"
    using assms f
    by (simp add: PassportRegister_def Let_def User_findOne_def log_def User_create_def
        setSessionForUser_def new_user_def req_session_def)
qed

lemma PassportRegister_cases:
  obtains (invalid) err where "first_invalid (register_checks E req) = Some err"
      "PassportRegister E req w = (Inl err, w)"
  | (conflict) x where "first_invalid (register_checks E req) = None"
      "find (where_email (field (req_body req) ''email'')) (users w) = Some x"
  | (fresh) "first_invalid (register_checks E req) = None"
      "find (where_email (field (req_body req) ''email'')) (users w) = None"
proof (cases "first_invalid (register_checks E req)")
  case None
  then show ?thesis
    by (cases "find (where_email (field (req_body req) ''email'')) (users w)")
       (auto intro: conflict fresh)
next
  case (Some err)
  then show ?thesis using invalid PassportRegister_invalid by blast
qed

text \<open>
  C3, as the controller has it. The validation checks come before the lookup. A
  registration that passes them and whose email already has a record in the store is
  answered with 409 after the one lookup and before any create call; the store is
  unchanged. So when a registration for a new email has succeeded, a second registration
  with the same email that passes the checks is answered with 409 and exactly one record
  with that email exists afterwards.
\<close>

theorem register_conflict_on_existing_email:
  fixes E :: env and req req1 :: request and w :: world
  defines "em \<equiv> field (req_body req) ''email''"
  assumes valid: "first_invalid (register_checks E req) = None"
  shows "((\<exists>u \<in> set (users w). email u = em) \<longrightarrow>
            fst (PassportRegister E req w) = Inl (ApiError 409 (JStr ''User already exists.''))
          \<and> users (snd (PassportRegister E req w)) = users w
          \<and> trace (snd (PassportRegister E req w)) = trace w @ [EvFindByEmail em])
       \<and> (first_invalid (register_checks E req1) = None \<and> field (req_body req1) ''email'' = em
            \<and> (\<forall>u \<in> set (users w). email u \<noteq> em) \<longrightarrow>
            (\<exists>r. fst (PassportRegister E req1 w) = Inr r \<and> status r = 201)
          \<and> fst (PassportRegister E req (snd (PassportRegister E req1 w)))
              = Inl (ApiError 409 (JStr ''User already exists.''))
          \<and> length (filter (\<lambda>u. email u = em)
               (users (snd (PassportRegister E req (snd (PassportRegister E req1 w)))))) = 1)"
proof (intro conjI impI)
  assume "\<exists>u \<in> set (users w). email u = em"
  then obtain x where x: "find (where_email em) (users w) = Some x"
    by (cases "find (where_email em) (users w)") (auto simp: find_None_iff where_email_def)
  note c = PassportRegister_conflict [OF valid x [unfolded em_def]]
  show "fst (PassportRegister E req w) = Inl (ApiError 409 (JStr ''User already exists.''))"
    by (simp add: c)
  show "users (snd (PassportRegister E req w)) = users w"
    by (simp add: c log_def)
  show "trace (snd (PassportRegister E req w)) = trace w @ [EvFindByEmail em]"
    by (simp add: c log_def em_def)
next
  assume a: "first_invalid (register_checks E req1) = None \<and> field (req_body req1) ''email'' = em
            \<and> (\<forall>u \<in> set (users w). email u \<noteq> em)"
  let ?w1 = "snd (PassportRegister E req1 w)"
  from a have none: "find (where_email (field (req_body req1) ''email'')) (users w) = None"
    by (auto simp: find_None_iff where_email_def)
  from a have v1: "first_invalid (register_checks E req1) = None" by simp
  note s = PassportRegister_success [OF v1 none]
  show "\<exists>r. fst (PassportRegister E req1 w) = Inr r \<and> status r = 201"
    by (simp add: s(1))
  have u1: "users ?w1 = users w @ [new_user E req1 w]" by (rule s(2))
  have em1: "email (new_user E req1 w) = em" using a by (simp add: new_user_def)
  have "find (where_email em) (users ?w1) = Some (new_user E req1 w)"
    unfolding u1 using none a em1 by (intro find_append_new) (auto simp: where_email_def)
  note c = PassportRegister_conflict [OF valid this [unfolded em_def]]
  show "fst (PassportRegister E req ?w1) = Inl (ApiError 409 (JStr ''User already exists.''))"
    by (simp add: c)
  have "filter (\<lambda>u. email u = em) (users w) = []"
    using a by (auto simp: filter_empty_conv)
  then show "length (filter (\<lambda>u. email u = em) (users (snd (PassportRegister E req ?w1)))) = 1"
    by (simp add: c log_def u1 em1)
qed

text \<open>
  The theorem at a store that holds the email, and at two registrations in a row from the
  empty store.
\<close>

theorem register_conflict_on_existing_email_witness:
  "first_invalid (register_checks spec_env (mk_request alice_body)) = None
   \<and> (\<exists>u \<in> set (users (world_of [alice])). email u = field (req_body (mk_request alice_body)) ''email'')
   \<and> fst (PassportRegister spec_env (mk_request alice_body) (world_of [alice]))
        = Inl (ApiError 409 (JStr ''User already exists.''))
   \<and> users (snd (PassportRegister spec_env (mk_request alice_body) (world_of [alice]))) = [alice]
   \<and> filter (\<lambda>u. email u = JStr ''a@b.com'') (users empty_world) = []
   \<and> fst (PassportRegister spec_env (mk_request alice_body)
            (snd (PassportRegister spec_env (mk_request alice_body) empty_world)))
        = Inl (ApiError 409 (JStr ''User already exists.''))
   \<and> length (filter (\<lambda>u. email u = JStr ''a@b.com'')
        (users (snd (PassportRegister spec_env (mk_request alice_body)
            (snd (PassportRegister spec_env (mk_request alice_body) empty_world)))))) = 1"
proof -
  have e: "field (req_body (mk_request alice_body)) ''email'' = JStr ''a@b.com''"
    by (simp add: mk_request_def alice_body_def field_def)
  have a: "\<exists>u \<in> set (users (world_of [alice])). email u = JStr ''a@b.com''"
    by (simp add: world_of_def alice_def)
  have b: "\<forall>u \<in> set (users empty_world). email u \<noteq> JStr ''a@b.com''"
    by (simp add: empty_world_def)
  have u: "users (world_of [alice]) = [alice]" "users empty_world = []"
    by (simp_all add: world_of_def empty_world_def)
  from register_conflict_on_existing_email [OF alice_valid, of "world_of [alice]" "mk_request alice_body"]
    register_conflict_on_existing_email [OF alice_valid, of empty_world "mk_request alice_body"]
    alice_valid a b
  show ?thesis unfolding e u by simp
qed

text \<open>
  C3, as stated, fails: not every registration with an email that has a record is
  answered with 409. Alice's email with the password \<^verbatim>\<open>weak\<close> is refused by the password
  check, with 400, before the store is asked.
\<close>

theorem register_existing_email_weak_password:
  "alice \<in> set (users (world_of [alice]))
   \<and> email alice = field (req_body (mk_request weak_body)) ''email''
   \<and> fst (PassportRegister spec_env (mk_request weak_body) (world_of [alice]))
        = Inl (ApiError 400 (JStr password_rule_message))
   \<and> fst (PassportRegister spec_env (mk_request weak_body) (world_of [alice]))
        \<noteq> Inl (ApiError 409 (JStr ''User already exists.''))"
  by (simp add: eval_defs weak_body_def)

lemma PassportRegister_create_call:
  assumes "first_invalid (register_checks E req) = None"
    and "find (where_email (field (req_body req) ''email'')) (users w) = None"
  shows "trace (snd (PassportRegister E req w)) = trace w @
           [EvFindByEmail (field (req_body req) ''email''),
            EvCreate (field (req_body req) ''email'') (field (req_body req) ''password'')
              (role (new_user E req w)) (field (req_body req) ''phoneNumber''),
            EvSetSession (fresh_userid (users w)),
            EvFindByEmail (field (req_body req) ''email'')]"
proof -
  have f: "find (where_email (field (req_body req) ''email'')) (users w @ [new_user E req w])
             = Some (new_user E req w)"
    using assms(2) by (rule find_append_new) (simp add: where_email_def new_user_def)
  show ?thesis
    using assms f
    by (simp add: PassportRegister_def Let_def User_findOne_def log_def User_create_def
        setSessionForUser_def new_user_def)
qed

text \<open>
  C8, as the controller has it. A registration that passes the validation checks and
  whose email has no record yet creates exactly one record: the create call carries, and
  the record appended to the store has, the requested role when that is \<^verbatim>\<open>admin\<close> or
  \<^verbatim>\<open>user\<close> and the role \<^verbatim>\<open>user\<close> otherwise (also when the field is absent). A registration
  that fails a check, or whose email has a record, creates nothing. Hence registration
  preserves that every record's role is \<^verbatim>\<open>admin\<close> or \<^verbatim>\<open>user\<close>.
\<close>

theorem register_creates_with_allowed_role:
  fixes E :: env and req :: request and w :: world
  defines "em \<equiv> field (req_body req) ''email''"
    and "pw \<equiv> field (req_body req) ''password''"
    and "ph \<equiv> field (req_body req) ''phoneNumber''"
    and "rl \<equiv> field (req_body req) ''role''"
    and "w' \<equiv> snd (PassportRegister E req w)"
  defines "userRole \<equiv> (if rl = JStr ''admin'' \<or> rl = JStr ''user'' then rl else JStr ''user'')"
  shows "(first_invalid (register_checks E req) = None \<and> (\<forall>u \<in> set (users w). email u \<noteq> em) \<longrightarrow>
            users w' = users w @
              [\<lparr>userid = fresh_userid (users w), email = em, password = hashPassword E pw,
                role = userRole, phoneNumber = ph, resetToken = None, tokenExpiration = None\<rparr>]
          \<and> EvCreate em pw userRole ph \<in> set (drop (length (trace w)) (trace w')))
       \<and> (first_invalid (register_checks E req) \<noteq> None \<or> (\<exists>u \<in> set (users w). email u = em) \<longrightarrow>
            users w' = users w)
       \<and> userRole \<in> {JStr ''admin'', JStr ''user''}
       \<and> ((\<forall>u \<in> set (users w). role u \<in> {JStr ''admin'', JStr ''user''}) \<longrightarrow>
            (\<forall>u \<in> set (users w'). role u \<in> {JStr ''admin'', JStr ''user''}))"
proof -
  have nu: "new_user E req w =
              \<lparr>userid = fresh_userid (users w), email = em, password = hashPassword E pw,
               role = userRole, phoneNumber = ph, resetToken = None, tokenExpiration = None\<rparr>"
    by (simp add: new_user_def allowedRoles_def em_def pw_def ph_def rl_def userRole_def)
  have ur: "userRole \<in> {JStr ''admin'', JStr ''user''}"
    by (simp add: userRole_def)
  show ?thesis
  proof (cases E req w rule: PassportRegister_cases)
    case (invalid err)
    then show ?thesis using ur by (simp add: w'_def)
  next
    case (conflict x)
    then have "\<exists>u \<in> set (users w). email u = em"
      by (auto simp: find_Some_iff where_email_def em_def)
    with conflict ur show ?thesis
      by (auto simp: w'_def PassportRegister_conflict log_def)
  next
    case fresh
    have none: "\<forall>u \<in> set (users w). email u \<noteq> em"
      using fresh(2) by (auto simp: find_None_iff where_email_def em_def)
    have us: "users w' = users w @ [new_user E req w]"
      unfolding w'_def by (rule PassportRegister_success(2) [OF fresh])
    have tr: "EvCreate em pw userRole ph \<in> set (drop (length (trace w)) (trace w'))"
      unfolding w'_def PassportRegister_create_call [OF fresh]
      by (simp add: nu em_def pw_def ph_def)
    have rol: "role (new_user E req w) \<in> {JStr ''admin'', JStr ''user''}"
      using ur by (simp add: nu)
    from fresh(1) none us tr ur rol show ?thesis
      by (auto simp: nu)
  qed
qed

text \<open>
  The theorem at a registration that asks for the role \<^verbatim>\<open>root\<close>: on a store that holds
  only bob the record is created with the role \<^verbatim>\<open>user\<close>; on a store that holds the email
  nothing is created.
\<close>

theorem register_creates_with_allowed_role_witness:
  "first_invalid (register_checks spec_env (mk_request root_body)) = None
   \<and> field (req_body (mk_request root_body)) ''role'' = JStr ''root''
   \<and> users (world_of [bob]) = [bob]
   \<and> users (snd (PassportRegister spec_env (mk_request root_body) (world_of [bob])))
        = [bob, alice\<lparr>userid := 3\<rparr>]
   \<and> role (alice\<lparr>userid := 3\<rparr>) = JStr ''user''
   \<and> EvCreate (JStr ''a@b.com'') (JStr ''Abcd1!'') (JStr ''user'') (JStr ''+919876543210'')
        \<in> set (trace (snd (PassportRegister spec_env (mk_request root_body) (world_of [bob]))))
   \<and> (\<exists>u \<in> set (users (world_of [alice])). email u = field (req_body (mk_request root_body)) ''email'')
   \<and> users (snd (PassportRegister spec_env (mk_request root_body) (world_of [alice]))) = [alice]"
  using register_creates_with_allowed_role [of spec_env "mk_request root_body" "world_of [bob]"]
    register_creates_with_allowed_role [of spec_env "mk_request root_body" "world_of [alice]"]
  by (simp add: eval_defs root_body_def bob_def)

text \<open>
  C8, as stated, fails: not every registration whose role is neither \<^verbatim>\<open>admin\<close> nor
  \<^verbatim>\<open>user\<close> creates a user. With the role \<^verbatim>\<open>root\<close>, a registration for an email that has a
  record is answered with 409, and one with the password \<^verbatim>\<open>weak\<close> is answered with 400;
  neither creates a record.
\<close>

theorem register_root_role_creates_nothing:
  "field (req_body (mk_request root_body)) ''role'' = JStr ''root''
   \<and> fst (PassportRegister spec_env (mk_request root_body) (world_of [alice]))
        = Inl (ApiError 409 (JStr ''User already exists.''))
   \<and> users (snd (PassportRegister spec_env (mk_request root_body) (world_of [alice])))
        = users (world_of [alice])
   \<and> field (req_body (mk_request (weak_body @ [(''role'', JStr ''root'')]))) ''role'' = JStr ''root''
   \<and> fst (PassportRegister spec_env (mk_request (weak_body @ [(''role'', JStr ''root'')])) empty_world)
        = Inl (ApiError 400 (JStr password_rule_message))
   \<and> users (snd (PassportRegister spec_env (mk_request (weak_body @ [(''role'', JStr ''root'')])) empty_world))
        = []"
  by (simp add: eval_defs root_body_def weak_body_def)

section \<open>Login\<close>

lemma PassportLogIn_success:
  assumes "fst (PassportLogIn E req loginErr w) = Inr r" and "status r = 200"
  shows "\<exists>u su.
    authenticate E (users w) (field (req_body req) ''email'') (field (req_body req) ''password'') = AuthOk u
    \<and> find (where_email (email u)) (users w) = Some su
    \<and> r = \<lparr>status = 200,
          cookies = [\<lparr>cookie_name = ''session_cookie'', cookie_value = userid u,
                      cookie_opts = \<lparr>httpOnly = True, secure = False, sameSite = Some ''strict''\<rparr>\<rparr>],
          cleared = [],
          body = ApiResponse 200 (JObj [(''user'', JObj (exclude_attributes [''password''] su))])
                   (JStr ''Login successful'')\<rparr>
    \<and> client_session (snd (PassportLogIn E req loginErr w)) =
       Some \<lparr>userId = Some (userid u), loginUser = Some (exclude_attributes [''password''] su)\<rparr>
    \<and> EvSetSession (userid u) \<in> set (trace (snd (PassportLogIn E req loginErr w)))"
  using assms
  by (auto simp: PassportLogIn_def Let_def User_findOne_def log_def setSessionForUser_def
      req_session_def
      split: option.splits auth_result.splits)

text \<open>
  C6. A login answered with 200 sets exactly one cookie, named \<^verbatim>\<open>session_cookie\<close>, with
  httpOnly set and sameSite \<^verbatim>\<open>strict\<close>, whose value is the identifier of the user the
  strategy authenticated; the same identifier is the \<^verbatim>\<open>userId\<close> of the session.
\<close>

theorem login_sets_session_cookie:
  assumes "fst (PassportLogIn E req loginErr w) = Inr r" and "status r = 200"
  shows "\<exists>u. authenticate E (users w) (field (req_body req) ''email'')
                 (field (req_body req) ''password'') = AuthOk u
            \<and> cookies r = [\<lparr>cookie_name = ''session_cookie'', cookie_value = userid u,
                             cookie_opts = \<lparr>httpOnly = True, secure = False,
                                            sameSite = Some ''strict''\<rparr>\<rparr>]
            \<and> map_option userId (client_session (snd (PassportLogIn E req loginErr w)))
                 = Some (Some (userid u))"
  using PassportLogIn_success [OF assms] by auto

text \<open>The theorem at a login with the right credentials.\<close>

theorem login_sets_session_cookie_witness:
  "fst (PassportLogIn spec_env (mk_request alice_body) None (world_of [alice])) = Inr alice_logged_in
   \<and> status alice_logged_in = 200
   \<and> authenticate spec_env (users (world_of [alice])) (JStr ''a@b.com'') (JStr ''Abcd1!'') = AuthOk alice
   \<and> userid alice = 1
   \<and> cookies alice_logged_in =
        [\<lparr>cookie_name = ''session_cookie'', cookie_value = 1,
          cookie_opts = \<lparr>httpOnly = True, secure = False, sameSite = Some ''strict''\<rparr>\<rparr>]
   \<and> map_option userId (client_session (snd (PassportLogIn spec_env (mk_request alice_body) None (world_of [alice]))))
        = Some (Some 1)"
proof -
  have a: "fst (PassportLogIn spec_env (mk_request alice_body) None (world_of [alice])) = Inr alice_logged_in"
    by (simp add: eval_defs alice_logged_in_def alice_row_def)
  have b: "status alice_logged_in = 200"
    by (simp add: alice_logged_in_def)
  from login_sets_session_cookie [OF a b] a b show ?thesis
    by (simp add: eval_defs alice_logged_in_def alice_row_def)
qed

text \<open>
  C4. The body of a 201 answer of registration and the body of a 200 answer of login
  carry the attributes of a user row read with \<^verbatim>\<open>password\<close> excluded: no attribute of
  that projection is named \<^verbatim>\<open>password\<close>.
\<close>

theorem password_excluded_from_success_bodies:
  "(fst (PassportRegister E req w) = Inr r \<longrightarrow>
      status r = 201 \<and>
      (\<exists>u. data (body r) = JObj (exclude_attributes [''password''] u)
           \<and> ''password'' \<notin> fst ` set (exclude_attributes [''password''] u)))
   \<and> (fst (PassportLogIn E req loginErr w) = Inr r \<and> status r = 200 \<longrightarrow>
      (\<exists>u. data (body r) = JObj [(''user'', JObj (exclude_attributes [''password''] u))]
           \<and> ''password'' \<notin> fst ` set (exclude_attributes [''password''] u)))"
proof -
  have nopw: "''password'' \<notin> fst ` set (exclude_attributes [''password''] u)" for u
    by (simp add: exclude_password_row)
  have reg: "status r = 201 \<and>
      (\<exists>u. data (body r) = JObj (exclude_attributes [''password''] u)
           \<and> ''password'' \<notin> fst ` set (exclude_attributes [''password''] u))"
    if r: "fst (PassportRegister E req w) = Inr r"
  proof (cases E req w rule: PassportRegister_cases)
    case (invalid err)
    with r show ?thesis by simp
  next
    case (conflict x)
    with r show ?thesis by (simp add: PassportRegister_conflict)
  next
    case fresh
    from PassportRegister_success(1) [OF fresh] r
    have "r = \<lparr>status = 201, cookies = [], cleared = [],
                body = ApiResponse 201 (JObj (exclude_attributes [''password''] (new_user E req w)))
                         (JStr ''User registered successfully.'')\<rparr>" by simp
    then show ?thesis using nopw by (auto simp: ApiResponse_def)
  qed
  have login: "\<exists>u. data (body r) = JObj [(''user'', JObj (exclude_attributes [''password''] u))]
           \<and> ''password'' \<notin> fst ` set (exclude_attributes [''password''] u)"
    if a: "fst (PassportLogIn E req loginErr w) = Inr r" and b: "status r = 200"
  proof -
    from PassportLogIn_success [OF a b] obtain su where
      "body r = ApiResponse 200 (JObj [(''user'', JObj (exclude_attributes [''password''] su))])
                   (JStr ''Login successful'')"
      by auto
    then show ?thesis using nopw by (auto simp: ApiResponse_def)
  qed
  from reg login show ?thesis by blast
qed

text \<open>The theorem at a registration and at a login that succeed.\<close>

theorem password_excluded_from_success_bodies_witness:
  "fst (PassportRegister spec_env (mk_request alice_body) empty_world) = Inr alice_registered
   \<and> data (body alice_registered) = JObj alice_row
   \<and> fst (PassportLogIn spec_env (mk_request alice_body) None (world_of [alice])) = Inr alice_logged_in
   \<and> status alice_logged_in = 200
   \<and> data (body alice_logged_in) = JObj [(''user'', JObj alice_row)]
   \<and> ''password'' \<notin> fst ` set alice_row"
  using password_excluded_from_success_bodies
      [of spec_env "mk_request alice_body" empty_world alice_registered None]
    password_excluded_from_success_bodies
      [of spec_env "mk_request alice_body" "world_of [alice]" alice_logged_in None]
  by (simp add: eval_defs alice_registered_def alice_logged_in_def alice_row_def)





section \<open>Forgot password\<close>

lemma length_toString_hex: "length (toString_hex bs) = 2 * length bs"
  by (induction bs) (simp_all add: toString_hex_def byte_hex_def)

lemma hex_digit_in: "d < 16 \<Longrightarrow> hex_digit d \<in> set ''0123456789abcdef''"
  unfolding hex_digit_def by (rule nth_mem) simp

lemma byte_hex_chars: "set (byte_hex b) \<subseteq> set ''0123456789abcdef''"
proof -
  have "unat b < 2 ^ LENGTH(8)" by (rule unsigned_less)
  then have "unat b < 256" by simp
  then have hi: "unat b div 16 < 16" and lo: "unat b mod 16 < 16" by simp_all
  have "hex_digit (unat b div 16) \<in> set ''0123456789abcdef''"
    using hi by (rule hex_digit_in)
  moreover have "hex_digit (unat b mod 16) \<in> set ''0123456789abcdef''"
    using lo by (rule hex_digit_in)
  ultimately show ?thesis
    unfolding byte_hex_def by (simp del: set_simps add: list.set(2) list.set(1))
qed

lemma toString_hex_chars: "set (toString_hex bs) \<subseteq> set ''0123456789abcdef''"
  unfolding toString_hex_def using byte_hex_chars by (induction bs) auto

lemma find_user_update:
  assumes "find P us = Some u" and "\<And>x. P (f x) = P x"
  shows "find P (user_update u f us) = Some (f u)"
  using assms(1) unfolding user_update_def
  by (induction us) (auto simp: assms(2) split: if_splits)

lemma ForgotPassword_not_found:
  assumes "validateEmail E (field (req_body req) ''email'')"
    and "User_findOne (where_email (field (req_body req) ''email'')) (users w) = None"
  shows "ForgotPassword E req entropy now w =
           (Inl (ApiError 404 (JStr ''User with this email does not exist.'')),
            log (EvFindByEmail (field (req_body req) ''email'')) w)"
  using assms by (simp add: ForgotPassword_def Let_def log_def)

lemma ForgotPassword_found:
  assumes "validateEmail E (field (req_body req) ''email'')"
    and "User_findOne (where_email (field (req_body req) ''email'')) (users w) = Some u"
  shows "ForgotPassword E req entropy now w =
           (Inr reset_email_sent,
            w\<lparr>users := user_update u
                  (\<lambda>x. x\<lparr>resetToken := Some (toString_hex (randomBytes entropy 3)),
                          tokenExpiration := Some (now + 3600000)\<rparr>) (users w),
              trace := trace w @
                [EvFindByEmail (field (req_body req) ''email''), EvUpdate (userid u),
                 EvSendResetEmail (field (req_body req) ''email'')
                   (req_protocol req @ ''://'' @ req_host req @ ''/verifyEmail/'' @
                    toString_hex (randomBytes entropy 3))]\<rparr>)"
  using assms by (simp add: ForgotPassword_def Let_def log_def reset_email_sent_def)

text \<open>
  C7. For an email that passes the email check, the request is answered with 404 and the
  store is unchanged when no record has that email. Otherwise the token is the hex
  encoding of three random bytes, 6 characters out of \<^verbatim>\<open>0123456789abcdef\<close>; reading the
  record of that email again gives the matched record with that token and with the
  expiration \<open>now + 3600000\<close> ms, one hour ahead; the update comes before the mail and
  the 200 answer.
\<close>

theorem ForgotPassword_issues_token:
  fixes E :: env and req :: request and entropy :: "nat \<Rightarrow> 8 word" and now :: int and w :: world
  defines "em \<equiv> field (req_body req) ''email''"
    and "tok \<equiv> toString_hex (randomBytes entropy 3)"
    and "out \<equiv> ForgotPassword E req entropy now w"
  assumes valid: "validateEmail E em"
  shows "(User_findOne (where_email em) (users w) = None \<longrightarrow>
            fst out = Inl (ApiError 404 (JStr ''User with this email does not exist.''))
          \<and> users (snd out) = users w)
       \<and> (\<forall>u. User_findOne (where_email em) (users w) = Some u \<longrightarrow>
            length tok = 6 \<and> set tok \<subseteq> set ''0123456789abcdef''
          \<and> User_findOne (where_email em) (users (snd out))
              = Some (u\<lparr>resetToken := Some tok, tokenExpiration := Some (now + 3600000)\<rparr>)
          \<and> fst out = Inr reset_email_sent \<and> status reset_email_sent = 200
          \<and> trace (snd out) = trace w @
                [EvFindByEmail em, EvUpdate (userid u),
                 EvSendResetEmail em (req_protocol req @ ''://'' @ req_host req @ ''/verifyEmail/'' @ tok)])"
proof (rule conjI)
  show "User_findOne (where_email em) (users w) = None \<longrightarrow>
            fst out = Inl (ApiError 404 (JStr ''User with this email does not exist.''))
          \<and> users (snd out) = users w"
    using valid unfolding em_def out_def
    by (simp add: ForgotPassword_not_found log_def)
next
  show "\<forall>u. User_findOne (where_email em) (users w) = Some u \<longrightarrow>
            length tok = 6 \<and> set tok \<subseteq> set ''0123456789abcdef''
          \<and> User_findOne (where_email em) (users (snd out))
              = Some (u\<lparr>resetToken := Some tok, tokenExpiration := Some (now + 3600000)\<rparr>)
          \<and> fst out = Inr reset_email_sent \<and> status reset_email_sent = 200
          \<and> trace (snd out) = trace w @
                [EvFindByEmail em, EvUpdate (userid u),
                 EvSendResetEmail em (req_protocol req @ ''://'' @ req_host req @ ''/verifyEmail/'' @ tok)]"
  proof (intro allI impI)
    fix u
    assume found: "User_findOne (where_email em) (users w) = Some u"
    have len: "length tok = 6"
      by (simp add: tok_def length_toString_hex randomBytes_def)
    have chars: "set tok \<subseteq> set ''0123456789abcdef''"
      unfolding tok_def by (rule toString_hex_chars)
    note run = ForgotPassword_found [OF valid [unfolded em_def] found [unfolded em_def], of entropy now]
    have "find (where_email em) (user_update u
            (\<lambda>x. x\<lparr>resetToken := Some tok, tokenExpiration := Some (now + 3600000)\<rparr>) (users w))
          = Some (u\<lparr>resetToken := Some tok, tokenExpiration := Some (now + 3600000)\<rparr>)"
      using found unfolding User_findOne_def
      by (rule find_user_update) (simp add: where_email_def)
    then have reread: "User_findOne (where_email em) (users (snd out))
              = Some (u\<lparr>resetToken := Some tok, tokenExpiration := Some (now + 3600000)\<rparr>)"
      by (simp add: out_def run User_findOne_def tok_def)
    have "fst out = Inr reset_email_sent" by (simp add: out_def run)
    moreover have "status reset_email_sent = 200" by (simp add: reset_email_sent_def)
    moreover have "trace (snd out) = trace w @
                [EvFindByEmail em, EvUpdate (userid u),
                 EvSendResetEmail em (req_protocol req @ ''://'' @ req_host req @ ''/verifyEmail/'' @ tok)]"
      by (simp add: out_def run em_def tok_def)
    ultimately show "length tok = 6 \<and> set tok \<subseteq> set ''0123456789abcdef''
          \<and> User_findOne (where_email em) (users (snd out))
              = Some (u\<lparr>resetToken := Some tok, tokenExpiration := Some (now + 3600000)\<rparr>)
          \<and> fst out = Inr reset_email_sent \<and> status reset_email_sent = 200
          \<and> trace (snd out) = trace w @
                [EvFindByEmail em, EvUpdate (userid u),
                 EvSendResetEmail em (req_protocol req @ ''://'' @ req_host req @ ''/verifyEmail/'' @ tok)]"
      using len chars reread by simp
  qed
qed

lemma sample_token: "toString_hex (randomBytes sample_entropy 3) = ''0ab1c2''"
proof -
  have "[0..<3] = [0, 1, 2]" by (simp add: upt_conv_Cons numeral_3_eq_3)
  then show ?thesis
    by (simp add: toString_hex_def randomBytes_def sample_entropy_def byte_hex_def hex_digit_def)
qed

text \<open>The theorem at a request for a known email and at one for an unknown email.\<close>

theorem ForgotPassword_issues_token_witness:
  "validateEmail spec_env (field (req_body (mk_request (forgot_body ''a@b.com''))) ''email'')
   \<and> User_findOne (where_email (JStr ''a@b.com'')) (users (world_of [alice, bob])) = Some alice
   \<and> toString_hex (randomBytes sample_entropy 3) = ''0ab1c2''
   \<and> fst (ForgotPassword spec_env (mk_request (forgot_body ''a@b.com'')) sample_entropy 1000 (world_of [alice, bob]))
       = Inr reset_email_sent
   \<and> users (snd (ForgotPassword spec_env (mk_request (forgot_body ''a@b.com'')) sample_entropy 1000 (world_of [alice, bob])))
       = [alice\<lparr>resetToken := Some ''0ab1c2'', tokenExpiration := Some 3601000\<rparr>, bob]
   \<and> User_findOne (where_email (JStr ''nobody@b.com'')) (users (world_of [alice, bob])) = None
   \<and> fst (ForgotPassword spec_env (mk_request (forgot_body ''nobody@b.com'')) sample_entropy 1000 (world_of [alice, bob]))
       = Inl (ApiError 404 (JStr ''User with this email does not exist.''))"
proof -
  have v: "validateEmail spec_env (field (req_body (mk_request (forgot_body ''a@b.com''))) ''email'')"
    "validateEmail spec_env (field (req_body (mk_request (forgot_body ''nobody@b.com''))) ''email'')"
    by (simp_all add: spec_env_def mk_request_def forgot_body_def field_def)
  have f: "field (req_body (mk_request (forgot_body e))) ''email'' = JStr e" for e
    by (simp add: mk_request_def forgot_body_def field_def)
  have a: "User_findOne (where_email (JStr ''a@b.com'')) (users (world_of [alice, bob])) = Some alice"
    by (simp add: User_findOne_def where_email_def world_of_def alice_def)
  have n: "User_findOne (where_email (JStr ''nobody@b.com'')) (users (world_of [alice, bob])) = None"
    by (simp add: User_findOne_def where_email_def world_of_def alice_def bob_def)
  have u: "users (snd (ForgotPassword spec_env (mk_request (forgot_body ''a@b.com'')) sample_entropy 1000 (world_of [alice, bob])))
       = [alice\<lparr>resetToken := Some ''0ab1c2'', tokenExpiration := Some 3601000\<rparr>, bob]"
    using v(1) a
    by (simp add: ForgotPassword_found f sample_token user_update_def world_of_def alice_def bob_def)
  from ForgotPassword_issues_token [OF v(1), where entropy = sample_entropy and now = 1000
           and w = "world_of [alice, bob]"]
    ForgotPassword_issues_token [OF v(2), where entropy = sample_entropy and now = 1000
           and w = "world_of [alice, bob]"]
    v a n u
  show ?thesis by (simp add: f sample_token)
qed

section \<open>Reset password\<close>

lemma ResetPassword_weak:
  assumes "\<not> validatePassword E (field (req_body req) ''newPassword'')"
  shows "ResetPassword E req now w = (Inl (ApiError 400 (JStr password_rule_message)), w)"
  using assms by (simp add: ResetPassword_def Let_def)

lemma ResetPassword_no_match:
  assumes "validatePassword E (field (req_body req) ''newPassword'')"
    and "User_findOne (where_reset (req_token req) now) (users w) = None"
  shows "ResetPassword E req now w =
           (Inl (ApiError 400 (JStr ''Invalid or expired reset token.'')),
            log (EvFindByResetToken (req_token req) now) w)"
  using assms by (simp add: ResetPassword_def Let_def log_def)

lemma ResetPassword_match:
  assumes "validatePassword E (field (req_body req) ''newPassword'')"
    and "User_findOne (where_reset (req_token req) now) (users w) = Some u"
  shows "ResetPassword E req now w =
           (Inr password_reset,
            w\<lparr>users := user_update u (consume E (field (req_body req) ''newPassword'')) (users w),
              trace := trace w @ [EvFindByResetToken (req_token req) now, EvUpdate (userid u)]\<rparr>)"
proof -
  have "consume E (field (req_body req) ''newPassword'') =
          (\<lambda>x. x\<lparr>password := hashPassword E (field (req_body req) ''newPassword''),
                  resetToken := None, tokenExpiration := None\<rparr>)"
    by (rule ext) (simp add: consume_def)
  with assms show ?thesis
    by (simp add: ResetPassword_def Let_def log_def password_reset_def)
qed

lemma ResetPassword_failure:
  assumes "fst (ResetPassword E req now w) = Inl e"
  shows "e = ApiError 400 (if validatePassword E (field (req_body req) ''newPassword'')
                           then JStr ''Invalid or expired reset token.''
                           else JStr password_rule_message)
         \<and> users (snd (ResetPassword E req now w)) = users w
         \<and> (validatePassword E (field (req_body req) ''newPassword'') \<longrightarrow>
              User_findOne (where_reset (req_token req) now) (users w) = None)"
proof (cases "validatePassword E (field (req_body req) ''newPassword'')")
  case False
  with assms show ?thesis by (simp add: ResetPassword_weak)
next
  case True
  show ?thesis
  proof (cases "User_findOne (where_reset (req_token req) now) (users w)")
    case None
    with True assms show ?thesis by (simp add: ResetPassword_no_match log_def)
  next
    case (Some u)
    with True assms show ?thesis by (simp add: ResetPassword_match)
  qed
qed

lemma ResetPassword_success:
  assumes "fst (ResetPassword E req now w) = Inr r"
  shows "validatePassword E (field (req_body req) ''newPassword'')
         \<and> r = password_reset
         \<and> (\<exists>u. User_findOne (where_reset (req_token req) now) (users w) = Some u
               \<and> users (snd (ResetPassword E req now w))
                    = user_update u (consume E (field (req_body req) ''newPassword'')) (users w))"
proof (cases "validatePassword E (field (req_body req) ''newPassword'')")
  case False
  with assms show ?thesis by (simp add: ResetPassword_weak)
next
  case True
  show ?thesis
  proof (cases "User_findOne (where_reset (req_token req) now) (users w)")
    case None
    with True assms show ?thesis by (simp add: ResetPassword_no_match log_def)
  next
    case (Some u)
    with True assms show ?thesis by (auto simp: ResetPassword_match)
  qed
qed

lemma findOne_where_reset_None_iff:
  "User_findOne (where_reset tok now) us = None \<longleftrightarrow>
     (\<forall>u \<in> set us. resetToken u = Some tok \<longrightarrow> (\<forall>t. tokenExpiration u = Some t \<longrightarrow> t \<le> now))"
proof -
  have "where_reset tok now u \<longleftrightarrow>
          \<not> (resetToken u = Some tok \<longrightarrow> (\<forall>t. tokenExpiration u = Some t \<longrightarrow> t \<le> now))" for u
    by (cases "tokenExpiration u") (auto simp: where_reset_def)
  then show ?thesis
    unfolding User_findOne_def find_None_iff by blast
qed

lemma findOne_SomeD:
  "User_findOne P us = Some u \<Longrightarrow> u \<in> set us \<and> P u"
  by (auto simp: User_findOne_def find_Some_iff)

lemma sole_holder:
  assumes "length (token_holders tok us) \<le> 1"
    and "a \<in> set us" "resetToken a = Some tok"
    and "b \<in> set us" "resetToken b = Some tok"
  shows "a = b"
proof -
  have "a \<in> set (token_holders tok us)" "b \<in> set (token_holders tok us)"
    using assms by (simp_all add: token_holders_def)
  with assms(1) show ?thesis
    by (cases "token_holders tok us") auto
qed

lemma no_holder_after_consume:
  assumes one: "length (token_holders tok us) \<le> 1"
    and u: "u \<in> set us" "resetToken u = Some tok"
  shows "token_holders tok (user_update u (consume E np) us) = []"
proof -
  have "resetToken y \<noteq> Some tok" if "y \<in> set (user_update u (consume E np) us)" for y
  proof -
    from that obtain x where x: "x \<in> set us"
      and y: "y = (if userid x = userid u then consume E np x else x)"
      by (auto simp: user_update_def)
    show ?thesis
    proof (cases "userid x = userid u")
      case True
      with y show ?thesis by (simp add: consume_def)
    next
      case False
      then have "x \<noteq> u" by auto
      with sole_holder [OF one x _ u] have "resetToken x \<noteq> Some tok" by blast
      with False y show ?thesis by simp
    qed
  qed
  then show ?thesis by (auto simp: token_holders_def filter_empty_conv)
qed

lemma consume_in_update:
  "u \<in> set us \<Longrightarrow> f u \<in> set (user_update u f us)"
  by (auto simp: user_update_def)

lemma expired_after_one_hour:
  assumes found: "uF \<in> set us"
    and one: "length (token_holders tok (user_update uF
                (\<lambda>x. x\<lparr>resetToken := Some tok, tokenExpiration := Some (issued + 3600000)\<rparr>) us)) \<le> 1"
    and late: "issued + 3600000 \<le> now"
  shows "User_findOne (where_reset tok now) (user_update uF
           (\<lambda>x. x\<lparr>resetToken := Some tok, tokenExpiration := Some (issued + 3600000)\<rparr>) us) = None"
proof -
  let ?f = "\<lambda>x. x\<lparr>resetToken := Some tok, tokenExpiration := Some (issued + 3600000)\<rparr>"
  let ?us' = "user_update uF ?f us"
  have mem: "?f uF \<in> set ?us'"
    using found by (rule consume_in_update)
  have tk: "resetToken (?f uF) = Some tok"
    by simp
  have "t \<le> now" if y: "y \<in> set ?us'" "resetToken y = Some tok" "tokenExpiration y = Some t" for y t
  proof -
    have "y = ?f uF"
      using one y(1,2) mem tk by (rule sole_holder)
    with y(3) late show ?thesis by simp
  qed
  then show ?thesis
    unfolding findOne_where_reset_None_iff by blast
qed

text \<open>
  C1, as the controller has it. A reset succeeds exactly when the new password passes the
  password check and some record holds the supplied token with an expiration strictly
  later than now; it then updates the matched record, setting the password and nulling
  token and expiration in the one update. Every failure is a 400 error, with the message
  \<^verbatim>\<open>Invalid or expired reset token.\<close> when the new password passes the check (which comes
  first), and leaves the store as it was. When at most one record held the token, any
  later reset with that token fails so. A reset fails so too when every record holding
  the token has an expiration at or before now; in particular, one hour or more after the
  forgot-password request that issued the token, when no other record holds it.
\<close>

theorem reset_token_consumed_and_expiry_bounded:
  fixes E :: env and req req2 reqF :: request and now now2 issued :: int and w w0 :: world
    and entropy :: "nat \<Rightarrow> 8 word"
  defines "tok \<equiv> req_token req"
    and "np \<equiv> field (req_body req) ''newPassword''"
    and "np2 \<equiv> field (req_body req2) ''newPassword''"
    and "out \<equiv> ResetPassword E req now w"
  defines "again \<equiv> ResetPassword E req2 now2 (snd out)"
  shows "((\<exists>r. fst out = Inr r) \<longleftrightarrow>
            validatePassword E np \<and>
            (\<exists>u \<in> set (users w). resetToken u = Some tok \<and> (\<exists>t. tokenExpiration u = Some t \<and> now < t)))
       \<and> (\<forall>r. fst out = Inr r \<longrightarrow>
            r = password_reset \<and> status r = 200 \<and>
            (\<exists>u. User_findOne (where_reset tok now) (users w) = Some u
                \<and> users (snd out) = user_update u (consume E np) (users w)
                \<and> consume E np u \<in> set (users (snd out))))
       \<and> (\<forall>e. fst out = Inl e \<longrightarrow>
            e = ApiError 400 (if validatePassword E np then JStr ''Invalid or expired reset token.''
                              else JStr password_rule_message)
            \<and> users (snd out) = users w)
       \<and> ((\<exists>r. fst out = Inr r) \<and> length (token_holders tok (users w)) \<le> 1 \<and> req_token req2 = tok \<longrightarrow>
            fst again = Inl (ApiError 400
               (if validatePassword E np2 then JStr ''Invalid or expired reset token.''
                else JStr password_rule_message))
            \<and> users (snd again) = users (snd out))
       \<and> ((\<forall>u \<in> set (users w). resetToken u = Some tok \<longrightarrow>
                (\<forall>t. tokenExpiration u = Some t \<longrightarrow> t \<le> now)) \<longrightarrow>
            fst out = Inl (ApiError 400
               (if validatePassword E np then JStr ''Invalid or expired reset token.''
                else JStr password_rule_message)))
       \<and> (validateEmail E (field (req_body reqF) ''email'')
            \<and> User_findOne (where_email (field (req_body reqF) ''email'')) (users w0) \<noteq> None
            \<and> w = snd (ForgotPassword E reqF entropy issued w0)
            \<and> tok = toString_hex (randomBytes entropy 3)
            \<and> length (token_holders tok (users w)) \<le> 1
            \<and> issued + 3600000 \<le> now \<longrightarrow>
            fst out = Inl (ApiError 400
               (if validatePassword E np then JStr ''Invalid or expired reset token.''
                else JStr password_rule_message)))"
proof -
  have ok: "r = password_reset \<and> status r = 200 \<and>
            (\<exists>u. User_findOne (where_reset tok now) (users w) = Some u
                \<and> users (snd out) = user_update u (consume E np) (users w)
                \<and> consume E np u \<in> set (users (snd out)))"
    if "fst out = Inr r" for r
  proof -
    from ResetPassword_success [OF that [unfolded out_def]]
    obtain u where r: "r = password_reset"
      and u: "User_findOne (where_reset tok now) (users w) = Some u"
      and us: "users (snd out) = user_update u (consume E np) (users w)"
      unfolding tok_def np_def out_def by blast
    from u have "u \<in> set (users w)" by (simp add: findOne_SomeD)
    then have "consume E np u \<in> set (users (snd out))"
      unfolding us by (rule consume_in_update)
    with r u us show ?thesis by (auto simp: password_reset_def)
  qed
  have bad: "e = ApiError 400 (if validatePassword E np then JStr ''Invalid or expired reset token.''
                              else JStr password_rule_message)
            \<and> users (snd out) = users w"
    if "fst out = Inl e" for e
    using ResetPassword_failure [OF that [unfolded out_def]] unfolding np_def out_def by simp
  have iff: "(\<exists>r. fst out = Inr r) \<longleftrightarrow>
            validatePassword E np \<and>
            (\<exists>u \<in> set (users w). resetToken u = Some tok \<and> (\<exists>t. tokenExpiration u = Some t \<and> now < t))"
  proof
    assume "\<exists>r. fst out = Inr r"
    then obtain r where r: "fst out = Inr r" ..
    from ResetPassword_success [OF r [unfolded out_def]]
    obtain u where v: "validatePassword E np"
      and u: "User_findOne (where_reset tok now) (users w) = Some u"
      unfolding tok_def np_def by blast
    from findOne_SomeD [OF u] have "u \<in> set (users w)" "where_reset tok now u" by simp_all
    then have "u \<in> set (users w) \<and> resetToken u = Some tok \<and> (\<exists>t. tokenExpiration u = Some t \<and> now < t)"
      by (cases "tokenExpiration u") (auto simp: where_reset_def)
    with v show "validatePassword E np \<and>
            (\<exists>u \<in> set (users w). resetToken u = Some tok \<and> (\<exists>t. tokenExpiration u = Some t \<and> now < t))"
      by blast
  next
    assume a: "validatePassword E np \<and>
            (\<exists>u \<in> set (users w). resetToken u = Some tok \<and> (\<exists>t. tokenExpiration u = Some t \<and> now < t))"
    then have "User_findOne (where_reset tok now) (users w) \<noteq> None"
      unfolding findOne_where_reset_None_iff by fastforce
    then obtain u where "User_findOne (where_reset tok now) (users w) = Some u" by blast
    with a show "\<exists>r. fst out = Inr r"
      unfolding out_def tok_def np_def by (simp add: ResetPassword_match)
  qed
  have replay: "fst again = Inl (ApiError 400
               (if validatePassword E np2 then JStr ''Invalid or expired reset token.''
                else JStr password_rule_message))
            \<and> users (snd again) = users (snd out)"
    if a: "(\<exists>r. fst out = Inr r) \<and> length (token_holders tok (users w)) \<le> 1 \<and> req_token req2 = tok"
  proof -
    from a obtain r where r: "fst out = Inr r" by blast
    from ok [OF r] obtain u where u: "User_findOne (where_reset tok now) (users w) = Some u"
      and us: "users (snd out) = user_update u (consume E np) (users w)" by blast
    from findOne_SomeD [OF u] have "u \<in> set (users w)" "resetToken u = Some tok"
      by (simp_all add: where_reset_def)
    with a have "token_holders tok (users (snd out)) = []"
      unfolding us by (intro no_holder_after_consume) simp_all
    then have "\<forall>x \<in> set (users (snd out)). resetToken x \<noteq> Some tok"
      by (simp add: token_holders_def filter_empty_conv)
    then have none: "User_findOne (where_reset (req_token req2) now2) (users (snd out)) = None"
      using a unfolding findOne_where_reset_None_iff by blast
    show ?thesis
    proof (cases "validatePassword E np2")
      case True
      with none show ?thesis
        unfolding again_def np2_def by (simp add: ResetPassword_no_match log_def)
    next
      case False
      then show ?thesis
        unfolding again_def np2_def by (simp add: ResetPassword_weak)
    qed
  qed
  have expired: "fst out = Inl (ApiError 400
               (if validatePassword E np then JStr ''Invalid or expired reset token.''
                else JStr password_rule_message))"
    if a: "\<forall>u \<in> set (users w). resetToken u = Some tok \<longrightarrow>
                (\<forall>t. tokenExpiration u = Some t \<longrightarrow> t \<le> now)"
  proof -
    from a have none: "User_findOne (where_reset (req_token req) now) (users w) = None"
      unfolding findOne_where_reset_None_iff tok_def by blast
    show ?thesis
    proof (cases "validatePassword E np")
      case True
      with none show ?thesis
        unfolding out_def np_def by (simp add: ResetPassword_no_match)
    next
      case False
      then show ?thesis
        unfolding out_def np_def by (simp add: ResetPassword_weak)
    qed
  qed
  have hour: "fst out = Inl (ApiError 400
               (if validatePassword E np then JStr ''Invalid or expired reset token.''
                else JStr password_rule_message))"
    if a: "validateEmail E (field (req_body reqF) ''email'')
            \<and> User_findOne (where_email (field (req_body reqF) ''email'')) (users w0) \<noteq> None
            \<and> w = snd (ForgotPassword E reqF entropy issued w0)
            \<and> tok = toString_hex (randomBytes entropy 3)
            \<and> length (token_holders tok (users w)) \<le> 1
            \<and> issued + 3600000 \<le> now"
  proof -
    from a obtain uF where uF: "User_findOne (where_email (field (req_body reqF) ''email'')) (users w0) = Some uF"
      by blast
    from a have v: "validateEmail E (field (req_body reqF) ''email'')" by simp
    have us: "users w = user_update uF
                (\<lambda>x. x\<lparr>resetToken := Some tok, tokenExpiration := Some (issued + 3600000)\<rparr>) (users w0)"
      using a by (simp add: ForgotPassword_found [OF v uF])
    from findOne_SomeD [OF uF] have mem: "uF \<in> set (users w0)" by simp
    have one: "length (token_holders tok (users w)) \<le> 1"
      using a by blast
    have late: "issued + 3600000 \<le> now"
      using a by blast
    have "User_findOne (where_reset tok now) (users w) = None"
      unfolding us using mem one [unfolded us] late by (rule expired_after_one_hour)
    then show ?thesis
      unfolding findOne_where_reset_None_iff by (rule expired)
  qed
  from iff ok bad replay expired hour show ?thesis by blast
qed

lemma users_one_pending:
  "users one_pending = [alice\<lparr>resetToken := Some ''0ab1c2'', tokenExpiration := Some 3600000\<rparr>, bob]"
  by (simp add: one_pending_def ForgotPassword_def Let_def sample_token eval_defs forgot_body_def bob_def)

lemma users_two_pending:
  "users two_pending =
     [alice\<lparr>resetToken := Some ''0ab1c2'', tokenExpiration := Some 3600000\<rparr>,
      bob\<lparr>resetToken := Some ''0ab1c2'', tokenExpiration := Some 3600000\<rparr>]"
  by (simp add: two_pending_def ForgotPassword_def Let_def sample_token eval_defs forgot_body_def bob_def)

lemmas reset_eval =
  ResetPassword_def reset_request_def Let_def User_findOne_def where_reset_def user_update_def
  log_def field_def spec_env_def is_upper_def is_lower_def is_digit_def is_special_def
  marked_hash_def password_reset_def alice_def bob_def

text \<open>
  The theorem at the world where alice has asked for a reset: the reset succeeds once, a
  second one with the token fails, and so does one at the expiration.
\<close>

theorem reset_token_consumed_and_expiry_bounded_witness:
  "validateEmail spec_env (field (req_body (mk_request (forgot_body ''a@b.com''))) ''email'')
   \<and> User_findOne (where_email (field (req_body (mk_request (forgot_body ''a@b.com''))) ''email''))
         (users (world_of [alice, bob])) = Some alice
   \<and> one_pending = snd (ForgotPassword spec_env (mk_request (forgot_body ''a@b.com'')) sample_entropy 0
                          (world_of [alice, bob]))
   \<and> req_token (reset_request ''0ab1c2'' ''Newp1!'') = toString_hex (randomBytes sample_entropy 3)
   \<and> length (token_holders ''0ab1c2'' (users one_pending)) \<le> 1
   \<and> fst (ResetPassword spec_env (reset_request ''0ab1c2'' ''Newp1!'') 1000 one_pending) = Inr password_reset
   \<and> users (snd (ResetPassword spec_env (reset_request ''0ab1c2'' ''Newp1!'') 1000 one_pending))
       = [alice\<lparr>password := marked_hash (JStr ''Newp1!'')\<rparr>, bob]
   \<and> fst (ResetPassword spec_env (reset_request ''0ab1c2'' ''Other2?'') 2000
           (snd (ResetPassword spec_env (reset_request ''0ab1c2'' ''Newp1!'') 1000 one_pending)))
       = Inl (ApiError 400 (JStr ''Invalid or expired reset token.''))
   \<and> fst (ResetPassword spec_env (reset_request ''0ab1c2'' ''Newp1!'') 3600000 one_pending)
       = Inl (ApiError 400 (JStr ''Invalid or expired reset token.''))"
proof -
  have v: "validateEmail spec_env (field (req_body (mk_request (forgot_body ''a@b.com''))) ''email'')"
    by (simp add: spec_env_def mk_request_def forgot_body_def field_def)
  have a: "User_findOne (where_email (field (req_body (mk_request (forgot_body ''a@b.com''))) ''email''))
         (users (world_of [alice, bob])) = Some alice"
    by (simp add: User_findOne_def where_email_def world_of_def alice_def mk_request_def
        forgot_body_def field_def)
  have t: "req_token (reset_request ''0ab1c2'' ''Newp1!'') = toString_hex (randomBytes sample_entropy 3)"
    by (simp add: reset_request_def sample_token)
  have h: "length (token_holders ''0ab1c2'' (users one_pending)) \<le> 1"
    by (simp add: users_one_pending token_holders_def alice_def bob_def)
  from reset_token_consumed_and_expiry_bounded
      [where E = spec_env and req = "reset_request ''0ab1c2'' ''Newp1!''" and now = 1000
         and w = one_pending and ?req2.0 = "reset_request ''0ab1c2'' ''Other2?''" and ?now2.0 = 2000
         and reqF = "mk_request (forgot_body ''a@b.com'')" and entropy = sample_entropy
         and issued = 0 and ?w0.0 = "world_of [alice, bob]"]
    reset_token_consumed_and_expiry_bounded
      [where E = spec_env and req = "reset_request ''0ab1c2'' ''Newp1!''" and now = 3600000
         and w = one_pending and ?req2.0 = "reset_request ''0ab1c2'' ''Other2?''" and ?now2.0 = 2000
         and reqF = "mk_request (forgot_body ''a@b.com'')" and entropy = sample_entropy
         and issued = 0 and ?w0.0 = "world_of [alice, bob]"]
    v a t h one_pending_def
  show ?thesis
    by (simp add: reset_eval users_one_pending consume_def)
qed

text \<open>
  C1, as stated, fails: a token is three random bytes and nothing keeps two records from
  holding the same one. After forgot-password requests for alice and for bob that drew the
  same bytes, a reset with that token succeeds, and a second reset with the same token
  succeeds again, on the other record.
\<close>

theorem reset_token_replayed_on_second_holder:
  "fst (ResetPassword spec_env (reset_request ''0ab1c2'' ''Newp1!'') 1000 two_pending) = Inr password_reset
   \<and> fst (ResetPassword spec_env (reset_request ''0ab1c2'' ''Newp1!'') 1000
           (snd (ResetPassword spec_env (reset_request ''0ab1c2'' ''Newp1!'') 1000 two_pending)))
       = Inr password_reset
   \<and> users (snd (ResetPassword spec_env (reset_request ''0ab1c2'' ''Newp1!'') 1000
           (snd (ResetPassword spec_env (reset_request ''0ab1c2'' ''Newp1!'') 1000 two_pending))))
       \<noteq> users (snd (ResetPassword spec_env (reset_request ''0ab1c2'' ''Newp1!'') 1000 two_pending))"
  by (simp add: reset_eval users_two_pending)

end
